theory Spec2Isabelle
  imports Complex_Main "HOL-Library.Sublist"
begin

section \<open>The capture script \<open>data_processing/data_recording.py\<close>\<close>

text \<open>
  The script is straight-line code: four parameter bindings, one construction of a
  \<open>uhd.usrp.MultiUSRP\<close> device object, one call of its \<open>recv_num_samps\<close>, one
  \<open>np.save\<close> and one \<open>print\<close>. It catches no exception. The model is a sequence
  of statements over an explicit state (the module globals, the file system, the console
  and a log with one entry for each declaration and each call that took effect); a
  statement either finishes in a new state or stops the run with the exception left
  uncaught. The imports and the UHD and numpy calls are collaborators outside the
  repository and enter as parameters. \<open>data_recording\<close> is the body of the file, lines
  5 to 18, as it runs once the three imports of lines 1 to 3 have succeeded;
  \<open>data_recording_py\<close> is the whole file, imports included.
\<close>

subsection \<open>Values, exceptions, events\<close>

datatype exn =
    ImportError string    \<comment> \<open>a module that could not be imported\<close>
  | NameError string      \<comment> \<open>a global read before it is bound\<close>
  | LibraryError string   \<comment> \<open>anything raised inside a UHD or numpy call\<close>

text \<open>
  The keyword arguments of \<open>recv_num_samps\<close>. The two float literals \<open>2460e6\<close>
  and \<open>4e6\<close> are whole numbers that a double holds exactly and the script does no
  arithmetic on them, so they are carried as reals. The tuple \<open>(0,)\<close> is a list.
\<close>

record recv_kwargs =
  kw_num_samps :: int
  kw_freq :: real
  kw_rate :: real
  kw_channels :: "int list"
  kw_gain :: int

text \<open>
  The sample buffer is a sequence of entries of type \<open>'a\<close> along its first axis; that
  is all \<open>samples[0:10]\<close> looks at. \<open>'h\<close> is the device handle.
\<close>

datatype ('h, 'a) event =
    Declare string                      \<comment> \<open>a literal bound to the named global\<close>
  | Call_MultiUSRP "exn + 'h"           \<comment> \<open>\<open>uhd.usrp.MultiUSRP()\<close>, with how it ended\<close>
  | Call_recv_num_samps 'h recv_kwargs  \<comment> \<open>\<open>usrp.recv_num_samps(...)\<close>\<close>
  | Call_save string "'a list"          \<comment> \<open>\<open>np.save(path, array)\<close>\<close>
  | Call_print "'a list"                \<comment> \<open>\<open>print(value)\<close>\<close>
  | Call_close 'h                       \<comment> \<open>a release of the device; the script has none\<close>

subsection \<open>The surroundings of a run\<close>

text \<open>
  What a run is started with and what the libraries answer. \<open>argv\<close> and \<open>environ\<close>
  are the command line and the process environment. An import answers \<open>None\<close> when the
  module loads and the exception otherwise. \<open>np_save\<close> answers \<open>None\<close> when the write
  succeeds and the exception otherwise; \<open>np_save_leaves\<close> says what a failed write leaves
  under the path: \<open>None\<close> when the file could not even be opened and is as before,
  \<open>Some part\<close> when it was opened and the write broke off after \<open>part\<close>.
\<close>

record ('h, 'a) env =
  argv :: "string list"
  environ :: "string \<rightharpoonup> string"
  import_uhd :: "exn option"
  import_numpy :: "exn option"
  import_matplotlib :: "exn option"
  MultiUSRP :: "exn + 'h"
  recv_num_samps :: "'h \<Rightarrow> recv_kwargs \<Rightarrow> exn + 'a list"
  np_save :: "string \<Rightarrow> 'a list \<Rightarrow> exn option"
  np_save_leaves :: "string \<Rightarrow> 'a list \<Rightarrow> 'a list option"

subsection \<open>State\<close>

text \<open>
  The six module globals (unbound is \<open>None\<close>), the files on disk, the values handed to
  \<open>print\<close>, and the log of steps in the order they happened.
\<close>

record ('h, 'a) state =
  num_samples :: "int option"
  center_freq :: "real option"
  sample_rate :: "real option"
  gain :: "int option"
  usrp :: "'h option"
  samples :: "'a list option"
  files :: "string \<rightharpoonup> 'a list"
  stdout :: "'a list list"
  trace :: "('h, 'a) event list"

definition initial :: "(string \<rightharpoonup> 'a list) \<Rightarrow> ('h, 'a) state" where
  "initial fs = \<lparr>num_samples = None, center_freq = None, sample_rate = None, gain = None,
     usrp = None, samples = None, files = fs, stdout = [], trace = []\<rparr>"

datatype 's outcome =
    Finished 's         \<comment> \<open>the statement, or the script, ran to its end\<close>
  | Uncaught exn 's     \<comment> \<open>an exception left the script; the state is the one at the raise\<close>

fun final :: "'s outcome \<Rightarrow> 's" where
  "final (Finished s) = s"
| "final (Uncaught e s) = s"

fun raised :: "'s outcome \<Rightarrow> exn option" where
  "raised (Finished s) = None"
| "raised (Uncaught e s) = Some e"

definition log :: "('h, 'a) event \<Rightarrow> ('h, 'a) state \<Rightarrow> ('h, 'a) state" where
  "log ev s = s\<lparr>trace := trace s @ [ev]\<rparr>"

subsection \<open>Slicing\<close>

text \<open>
  Python's \<open>xs[start:stop]\<close> on a sequence: a negative bound counts from the end, and
  each bound is clamped into \<open>0..len\<close>; an empty range gives the empty sequence. It
  never raises.
\<close>

definition slice_bound :: "int \<Rightarrow> nat \<Rightarrow> nat" where
  "slice_bound i len =
     (if i < 0 then nat (max 0 (i + int len)) else min (nat i) len)"

definition slice :: "int \<Rightarrow> int \<Rightarrow> 'a list \<Rightarrow> 'a list" where
  "slice start stop xs =
     (let lo = slice_bound start (length xs); hi = slice_bound stop (length xs)
      in take (hi - lo) (drop lo xs))"

subsection \<open>The statements\<close>

text \<open>Lines 1 to 3: \<open>import uhd\<close>, \<open>import numpy as np\<close>,
  \<open>import matplotlib.pyplot as plt\<close>. An import binds a module name and takes none of
  the steps the log records; it can raise.\<close>

definition stmt_import_uhd :: "('h, 'a) env \<Rightarrow> ('h, 'a) state \<Rightarrow> ('h, 'a) state outcome" where
  "stmt_import_uhd env s = (case import_uhd env of None \<Rightarrow> Finished s | Some e \<Rightarrow> Uncaught e s)"

definition stmt_import_numpy :: "('h, 'a) env \<Rightarrow> ('h, 'a) state \<Rightarrow> ('h, 'a) state outcome" where
  "stmt_import_numpy env s =
     (case import_numpy env of None \<Rightarrow> Finished s | Some e \<Rightarrow> Uncaught e s)"

definition stmt_import_matplotlib ::
  "('h, 'a) env \<Rightarrow> ('h, 'a) state \<Rightarrow> ('h, 'a) state outcome" where
  "stmt_import_matplotlib env s =
     (case import_matplotlib env of None \<Rightarrow> Finished s | Some e \<Rightarrow> Uncaught e s)"

text \<open>Lines 5 to 8: \<open>num_samples:int = 20_000_000\<close>, \<open>center_freq = 2460e6\<close>,
  \<open>sample_rate:float = 4e6\<close>, \<open>gain = 50\<close>.\<close>

definition stmt_num_samples :: "('h, 'a) state \<Rightarrow> ('h, 'a) state outcome" where
  "stmt_num_samples s = Finished (log (Declare ''num_samples'') (s\<lparr>num_samples := Some 20000000\<rparr>))"

definition stmt_center_freq :: "('h, 'a) state \<Rightarrow> ('h, 'a) state outcome" where
  "stmt_center_freq s = Finished (log (Declare ''center_freq'') (s\<lparr>center_freq := Some 2460000000\<rparr>))"

definition stmt_sample_rate :: "('h, 'a) state \<Rightarrow> ('h, 'a) state outcome" where
  "stmt_sample_rate s = Finished (log (Declare ''sample_rate'') (s\<lparr>sample_rate := Some 4000000\<rparr>))"

definition stmt_gain :: "('h, 'a) state \<Rightarrow> ('h, 'a) state outcome" where
  "stmt_gain s = Finished (log (Declare ''gain'') (s\<lparr>gain := Some 50\<rparr>))"

text \<open>Line 9: \<open>usrp = uhd.usrp.MultiUSRP()\<close>.\<close>

definition stmt_usrp :: "('h, 'a) env \<Rightarrow> ('h, 'a) state \<Rightarrow> ('h, 'a) state outcome" where
  "stmt_usrp env s =
     (let s1 = log (Call_MultiUSRP (MultiUSRP env)) s
      in case MultiUSRP env of
           Inl e \<Rightarrow> Uncaught e s1
         | Inr h \<Rightarrow> Finished (s1\<lparr>usrp := Some h\<rparr>))"

text \<open>
  Line 10: \<open>samples = usrp.recv_num_samps(num_samps=num_samples, freq=center_freq,
  rate=sample_rate, channels=(0,), gain=50)\<close>. The receiver and the arguments are
  evaluated left to right; the gain passed is the literal \<open>50\<close>, not the global.
\<close>

definition stmt_samples :: "('h, 'a) env \<Rightarrow> ('h, 'a) state \<Rightarrow> ('h, 'a) state outcome" where
  "stmt_samples env s =
     (case usrp s of
        None \<Rightarrow> Uncaught (NameError ''usrp'') s
      | Some h \<Rightarrow>
     (case num_samples s of
        None \<Rightarrow> Uncaught (NameError ''num_samples'') s
      | Some n \<Rightarrow>
     (case center_freq s of
        None \<Rightarrow> Uncaught (NameError ''center_freq'') s
      | Some f \<Rightarrow>
     (case sample_rate s of
        None \<Rightarrow> Uncaught (NameError ''sample_rate'') s
      | Some r \<Rightarrow>
          (let kw = \<lparr>kw_num_samps = n, kw_freq = f, kw_rate = r,
                     kw_channels = [0], kw_gain = 50\<rparr>;
               s1 = log (Call_recv_num_samps h kw) s
           in case recv_num_samps env h kw of
                Inl e \<Rightarrow> Uncaught e s1
              | Inr buf \<Rightarrow> Finished (s1\<lparr>samples := Some buf\<rparr>))))))"

text \<open>Line 11: \<open>np.save("DATA_4mhz.npy", samples)\<close>. A write that fails leaves the
  file as it was when it could not be opened, and truncated when it broke off.\<close>

definition stmt_save :: "('h, 'a) env \<Rightarrow> ('h, 'a) state \<Rightarrow> ('h, 'a) state outcome" where
  "stmt_save env s =
     (case samples s of
        None \<Rightarrow> Uncaught (NameError ''samples'') s
      | Some buf \<Rightarrow>
          (let s1 = log (Call_save ''DATA_4mhz.npy'' buf) s
           in case np_save env ''DATA_4mhz.npy'' buf of
                Some e \<Rightarrow>
                  (case np_save_leaves env ''DATA_4mhz.npy'' buf of
                     None \<Rightarrow> Uncaught e s1
                   | Some part \<Rightarrow>
                       Uncaught e (s1\<lparr>files := (files s1)(''DATA_4mhz.npy'' \<mapsto> part)\<rparr>))
              | None \<Rightarrow> Finished (s1\<lparr>files := (files s1)(''DATA_4mhz.npy'' \<mapsto> buf)\<rparr>)))"

text \<open>Line 18: \<open>print(samples[0:10])\<close>. The console records the value handed to
  \<open>print\<close>.\<close>

definition stmt_print :: "('h, 'a) state \<Rightarrow> ('h, 'a) state outcome" where
  "stmt_print s =
     (case samples s of
        None \<Rightarrow> Uncaught (NameError ''samples'') s
      | Some buf \<Rightarrow>
          (let v = slice 0 10 buf
           in Finished ((log (Call_print v) s)\<lparr>stdout := stdout s @ [v]\<rparr>)))"

subsection \<open>The script\<close>

text \<open>Statements run in order; the first exception ends the run. \<open>script\<close> is lines 5
  to 18.\<close>

fun run :: "('s \<Rightarrow> 's outcome) list \<Rightarrow> 's \<Rightarrow> 's outcome" where
  "run [] s = Finished s"
| "run (st # sts) s =
     (case st s of
        Finished s' \<Rightarrow> run sts s'
      | Uncaught e s' \<Rightarrow> Uncaught e s')"

definition script :: "('h, 'a) env \<Rightarrow> (('h, 'a) state \<Rightarrow> ('h, 'a) state outcome) list" where
  "script env =
     [stmt_num_samples, stmt_center_freq, stmt_sample_rate, stmt_gain,
      stmt_usrp env, stmt_samples env, stmt_save env, stmt_print]"

text \<open>Lines 5 to 18, in a process whose imports have succeeded.\<close>

definition data_recording :: "('h, 'a) env \<Rightarrow> (string \<rightharpoonup> 'a list) \<Rightarrow> ('h, 'a) state outcome" where
  "data_recording env fs = run (script env) (initial fs)"

text \<open>The whole file, lines 1 to 18.\<close>

definition import_lines :: "('h, 'a) env \<Rightarrow> (('h, 'a) state \<Rightarrow> ('h, 'a) state outcome) list" where
  "import_lines env = [stmt_import_uhd env, stmt_import_numpy env, stmt_import_matplotlib env]"

definition data_recording_py ::
  "('h, 'a) env \<Rightarrow> (string \<rightharpoonup> 'a list) \<Rightarrow> ('h, 'a) state outcome" where
  "data_recording_py env fs = run (import_lines env @ script env) (initial fs)"

subsection \<open>Reading a run\<close>

text \<open>The calls in a log, by kind, in the order they were made.\<close>

fun recv_calls :: "('h, 'a) event list \<Rightarrow> recv_kwargs list" where
  "recv_calls [] = []"
| "recv_calls (Call_recv_num_samps h kw # tr) = kw # recv_calls tr"
| "recv_calls (_ # tr) = recv_calls tr"

fun save_calls :: "('h, 'a) event list \<Rightarrow> (string \<times> 'a list) list" where
  "save_calls [] = []"
| "save_calls (Call_save p a # tr) = (p, a) # save_calls tr"
| "save_calls (_ # tr) = save_calls tr"

fun print_calls :: "('h, 'a) event list \<Rightarrow> 'a list list" where
  "print_calls [] = []"
| "print_calls (Call_print v # tr) = v # print_calls tr"
| "print_calls (_ # tr) = print_calls tr"

text \<open>How often the constructor was called, and how often it handed out a device.\<close>

fun constructions :: "('h, 'a) event list \<Rightarrow> nat" where
  "constructions [] = 0"
| "constructions (Call_MultiUSRP r # tr) = Suc (constructions tr)"
| "constructions (_ # tr) = constructions tr"

fun acquisitions :: "('h, 'a) event list \<Rightarrow> 'h list" where
  "acquisitions [] = []"
| "acquisitions (Call_MultiUSRP (Inr h) # tr) = h # acquisitions tr"
| "acquisitions (_ # tr) = acquisitions tr"

fun close_calls :: "('h, 'a) event list \<Rightarrow> 'h list" where
  "close_calls [] = []"
| "close_calls (Call_close h # tr) = h # close_calls tr"
| "close_calls (_ # tr) = close_calls tr"

text \<open>The five kinds of step the specification lists, and a sixth that it rules out.\<close>

datatype step =
    Parameter_declaration
  | Device_acquisition
  | Receive_call
  | File_write
  | Console_print
  | Device_release

fun step_of :: "('h, 'a) event \<Rightarrow> step" where
  "step_of (Declare name) = Parameter_declaration"
| "step_of (Call_MultiUSRP r) = Device_acquisition"
| "step_of (Call_recv_num_samps h kw) = Receive_call"
| "step_of (Call_save p a) = File_write"
| "step_of (Call_print v) = Console_print"
| "step_of (Call_close h) = Device_release"



text \<open>The first import that raises, if any.\<close>

definition failed_import :: "('h, 'a) env \<Rightarrow> exn option" where
  "failed_import env =
     (case import_uhd env of
        Some e \<Rightarrow> Some e
      | None \<Rightarrow> (case import_numpy env of Some e \<Rightarrow> Some e | None \<Rightarrow> import_matplotlib env))"

text \<open>The parameter values as the specification lists them.\<close>

definition claimed_kwargs :: recv_kwargs where
  "claimed_kwargs =
     \<lparr>kw_num_samps = 20000000, kw_freq = 2460000000, kw_rate = 4000000,
      kw_channels = [0], kw_gain = 50\<rparr>"

text \<open>
  Reloading a file, as \<open>np.load(path)\<close> would after the run. A file of the model
  holds the array that was saved to it; the bytes of the \<open>.npy\<close> format are numpy's
  business and are not modelled.
\<close>

definition np_load :: "string \<Rightarrow> ('h, 'a) state \<Rightarrow> exn + 'a list" where
  "np_load path s =
     (case files s path of
        None \<Rightarrow> Inl (LibraryError ''FileNotFoundError'')
      | Some a \<Rightarrow> Inr a)"

text \<open>The state once lines 5 to 8 have run.\<close>

definition declared :: "(string \<rightharpoonup> 'a list) \<Rightarrow> ('h, 'a) state" where
  "declared fs =
     \<lparr>num_samples = Some 20000000, center_freq = Some 2460000000,
      sample_rate = Some 4000000, gain = Some 50, usrp = None, samples = None,
      files = fs, stdout = [],
      trace = [Declare ''num_samples'', Declare ''center_freq'',
               Declare ''sample_rate'', Declare ''gain'']\<rparr>"

subsection \<open>Stand-ins for the hardware library\<close>

text \<open>
  A mocked library that honours the length contract: it hands out device \<open>0\<close> and
  answers a request for \<open>n\<close> samples with \<open>n\<close> zeros.
\<close>

definition mocked_env :: "(nat, complex) env" where
  "mocked_env =
     \<lparr>argv = [''data_recording.py''], environ = Map.empty,
      import_uhd = None, import_numpy = None, import_matplotlib = None, MultiUSRP = Inr 0,
      recv_num_samps = (\<lambda>h kw. if kw_num_samps kw < 0 then Inl (LibraryError ''num_samps'')
                                else Inr (replicate (nat (kw_num_samps kw)) 0)),
      np_save = (\<lambda>p a. None), np_save_leaves = (\<lambda>p a. None)\<rparr>"

text \<open>The UHD Python module is not installed: the first import raises.\<close>

definition no_uhd_env :: "(nat, complex) env" where
  "no_uhd_env = mocked_env\<lparr>import_uhd := Some (ImportError ''No module named uhd'')\<rparr>"


text \<open>No radio attached: the constructor raises.\<close>

definition no_device_env :: "(nat, complex) env" where
  "no_device_env = mocked_env\<lparr>MultiUSRP := Inl (LibraryError ''No devices found'')\<rparr>"

text \<open>A radio that cannot be tuned: the receive call raises.\<close>

definition tuning_error_env :: "(nat, complex) env" where
  "tuning_error_env =
     mocked_env\<lparr>recv_num_samps := (\<lambda>h kw. Inl (LibraryError ''tune request failed''))\<rparr>"

text \<open>A library that returns three samples whatever was asked for.\<close>

definition short_buffer_env :: "(nat, complex) env" where
  "short_buffer_env = mocked_env\<lparr>recv_num_samps := (\<lambda>h kw. Inr [1, 2, 3])\<rparr>"

text \<open>A run started with command-line flags and environment variables set.\<close>

definition flagged_env :: "(nat, complex) env" where
  "flagged_env =
     short_buffer_env\<lparr>argv := [''data_recording.py'', ''--freq'', ''915e6''],
                       environ := [''SAMPLE_RATE'' \<mapsto> ''1e6''], MultiUSRP := Inr 7\<rparr>"

section \<open>Lemmas about the run\<close>

lemma slice_0_10: "slice 0 10 xs = take 10 xs"
  by (cases "10 \<le> length xs") (simp_all add: slice_def slice_bound_def Let_def min_def)

lemma run_to_declared:
  "data_recording env fs =
     run [stmt_usrp env, stmt_samples env, stmt_save env, stmt_print] (declared fs)"
  by (simp add: data_recording_def script_def initial_def declared_def log_def
      stmt_num_samples_def stmt_center_freq_def stmt_sample_rate_def stmt_gain_def)

text \<open>The four ways a run can go, each with its final state written out.\<close>

lemma run_no_device:
  "MultiUSRP env = Inl e \<Longrightarrow>
   data_recording env fs =
     Uncaught e ((declared fs)\<lparr>trace := trace (declared fs) @ [Call_MultiUSRP (Inl e)]\<rparr>)"
  by (simp add: run_to_declared stmt_usrp_def log_def)

lemma run_recv_fails:
  "MultiUSRP env = Inr h \<Longrightarrow> recv_num_samps env h claimed_kwargs = Inl e \<Longrightarrow>
   data_recording env fs =
     Uncaught e ((declared fs)\<lparr>usrp := Some h,
       trace := trace (declared fs) @
         [Call_MultiUSRP (Inr h), Call_recv_num_samps h claimed_kwargs]\<rparr>)"
  by (simp add: run_to_declared stmt_usrp_def stmt_samples_def log_def declared_def
      claimed_kwargs_def)

lemma run_save_fails:
  "MultiUSRP env = Inr h \<Longrightarrow> recv_num_samps env h claimed_kwargs = Inr buf \<Longrightarrow>
   np_save env ''DATA_4mhz.npy'' buf = Some e \<Longrightarrow>
   data_recording env fs =
     Uncaught e ((declared fs)\<lparr>usrp := Some h, samples := Some buf,
       files := (case np_save_leaves env ''DATA_4mhz.npy'' buf of
                   None \<Rightarrow> fs
                 | Some part \<Rightarrow> fs(''DATA_4mhz.npy'' \<mapsto> part)),
       trace := trace (declared fs) @
         [Call_MultiUSRP (Inr h), Call_recv_num_samps h claimed_kwargs,
          Call_save ''DATA_4mhz.npy'' buf]\<rparr>)"
  by (simp add: run_to_declared stmt_usrp_def stmt_samples_def stmt_save_def log_def
      declared_def claimed_kwargs_def split: option.splits)

lemma run_all_succeed:
  "MultiUSRP env = Inr h \<Longrightarrow> recv_num_samps env h claimed_kwargs = Inr buf \<Longrightarrow>
   np_save env ''DATA_4mhz.npy'' buf = None \<Longrightarrow>
   data_recording env fs =
     Finished ((declared fs)\<lparr>usrp := Some h, samples := Some buf,
       files := fs(''DATA_4mhz.npy'' \<mapsto> buf), stdout := [take 10 buf],
       trace := trace (declared fs) @
         [Call_MultiUSRP (Inr h), Call_recv_num_samps h claimed_kwargs,
          Call_save ''DATA_4mhz.npy'' buf, Call_print (take 10 buf)]\<rparr>)"
  by (simp add: run_to_declared stmt_usrp_def stmt_samples_def stmt_save_def stmt_print_def
      slice_0_10 Let_def log_def declared_def claimed_kwargs_def)

lemma data_recording_cases [case_names no_device recv_fails save_fails all_succeed]:
  obtains
    (no_device) e where "MultiUSRP env = Inl e"
  | (recv_fails) h e where "MultiUSRP env = Inr h"
      and "recv_num_samps env h claimed_kwargs = Inl e"
  | (save_fails) h buf e where "MultiUSRP env = Inr h"
      and "recv_num_samps env h claimed_kwargs = Inr buf"
      and "np_save env ''DATA_4mhz.npy'' buf = Some e"
  | (all_succeed) h buf where "MultiUSRP env = Inr h"
      and "recv_num_samps env h claimed_kwargs = Inr buf"
      and "np_save env ''DATA_4mhz.npy'' buf = None"
proof (cases "MultiUSRP env")
  case (Inl e)
  then show ?thesis by (rule no_device)
next
  case (Inr h)
  note dev = this
  show ?thesis
  proof (cases "recv_num_samps env h claimed_kwargs")
    case (Inl e)
    with dev show ?thesis by (rule recv_fails)
  next
    case (Inr buf)
    note got = this
    show ?thesis
    proof (cases "np_save env ''DATA_4mhz.npy'' buf")
      case None
      with dev got show ?thesis by (rule all_succeed)
    next
      case (Some e)
      with dev got show ?thesis by (rule save_fails)
    qed
  qed
qed

lemma save_calls_append: "save_calls (xs @ ys) = save_calls xs @ save_calls ys"
  by (induction xs rule: save_calls.induct) simp_all

text \<open>The run against the mocked library, written out.\<close>

lemma mocked_run:
  "data_recording mocked_env fs =
     Finished ((declared fs)\<lparr>usrp := Some 0, samples := Some (replicate 20000000 0),
       files := fs(''DATA_4mhz.npy'' \<mapsto> replicate 20000000 0),
       stdout := [replicate 10 0],
       trace := trace (declared fs) @
         [Call_MultiUSRP (Inr 0), Call_recv_num_samps 0 claimed_kwargs,
          Call_save ''DATA_4mhz.npy'' (replicate 20000000 0),
          Call_print (replicate 10 0)]\<rparr>)"
  by (simp add: run_all_succeed [where h = 0 and buf = "replicate 20000000 0"]
      mocked_env_def claimed_kwargs_def)

lemma no_device_run:
  "data_recording no_device_env fs =
     Uncaught (LibraryError ''No devices found'')
       ((declared fs)\<lparr>trace := trace (declared fs) @
          [Call_MultiUSRP (Inl (LibraryError ''No devices found''))]\<rparr>)"
  by (simp add: run_no_device no_device_env_def mocked_env_def)

lemma tuning_error_run:
  "data_recording tuning_error_env fs =
     Uncaught (LibraryError ''tune request failed'')
       ((declared fs)\<lparr>usrp := Some 0,
          trace := trace (declared fs) @
            [Call_MultiUSRP (Inr 0), Call_recv_num_samps 0 claimed_kwargs]\<rparr>)"
  by (simp add: run_recv_fails [where h = 0] tuning_error_env_def mocked_env_def)

lemma short_buffer_run:
  "data_recording short_buffer_env fs =
     Finished ((declared fs)\<lparr>usrp := Some 0, samples := Some [1, 2, 3],
       files := fs(''DATA_4mhz.npy'' \<mapsto> [1, 2, 3]), stdout := [[1, 2, 3]],
       trace := trace (declared fs) @
         [Call_MultiUSRP (Inr 0), Call_recv_num_samps 0 claimed_kwargs,
          Call_save ''DATA_4mhz.npy'' [1, 2, 3], Call_print [1, 2, 3]]\<rparr>)"
  by (simp add: run_all_succeed [where h = 0 and buf = "[1, 2, 3]"]
      short_buffer_env_def mocked_env_def)

lemma flagged_run:
  "data_recording flagged_env fs =
     Finished ((declared fs)\<lparr>usrp := Some 7, samples := Some [1, 2, 3],
       files := fs(''DATA_4mhz.npy'' \<mapsto> [1, 2, 3]), stdout := [[1, 2, 3]],
       trace := trace (declared fs) @
         [Call_MultiUSRP (Inr 7), Call_recv_num_samps 7 claimed_kwargs,
          Call_save ''DATA_4mhz.npy'' [1, 2, 3], Call_print [1, 2, 3]]\<rparr>)"
  by (simp add: run_all_succeed [where h = 7 and buf = "[1, 2, 3]"]
      flagged_env_def short_buffer_env_def mocked_env_def)


text \<open>The whole file: the first failing import ends it before line 5; with none, it is
  the body.\<close>

lemma data_recording_py_import_fails:
  "failed_import env = Some e \<Longrightarrow> data_recording_py env fs = Uncaught e (initial fs)"
  by (simp add: data_recording_py_def import_lines_def failed_import_def stmt_import_uhd_def
      stmt_import_numpy_def stmt_import_matplotlib_def split: option.splits)

lemma data_recording_py_imports_ok:
  "failed_import env = None \<Longrightarrow> data_recording_py env fs = data_recording env fs"
  by (simp add: data_recording_py_def data_recording_def import_lines_def failed_import_def
      stmt_import_uhd_def stmt_import_numpy_def stmt_import_matplotlib_def
      split: option.splits)

text \<open>What every run has in common.\<close>

lemma recv_calls_of_run:
  "set (recv_calls (trace (final (data_recording env fs)))) \<subseteq> {claimed_kwargs}"
proof (cases rule: data_recording_cases [of env])
  case (no_device e)
  then show ?thesis
    by (simp add: run_no_device declared_def)
next
  case (recv_fails h e)
  then show ?thesis
    by (simp add: run_recv_fails declared_def)
next
  case (save_fails h buf e)
  then show ?thesis
    by (simp add: run_save_fails declared_def)
next
  case (all_succeed h buf)
  then show ?thesis
    by (simp add: run_all_succeed declared_def)
qed

lemma save_paths_of_run:
  "set (map fst (save_calls (trace (final (data_recording env fs))))) \<subseteq> {''DATA_4mhz.npy''}"
proof (cases rule: data_recording_cases [of env])
  case (no_device e)
  then show ?thesis
    by (simp add: run_no_device declared_def)
next
  case (recv_fails h e)
  then show ?thesis
    by (simp add: run_recv_fails declared_def)
next
  case (save_fails h buf e)
  then show ?thesis
    by (simp add: run_save_fails declared_def)
next
  case (all_succeed h buf)
  then show ?thesis
    by (simp add: run_all_succeed declared_def)
qed

lemma parameters_of_run:
  "num_samples (final (data_recording env fs)) = Some 20000000 \<and>
   center_freq (final (data_recording env fs)) = Some 2460000000 \<and>
   sample_rate (final (data_recording env fs)) = Some 4000000 \<and>
   gain (final (data_recording env fs)) = Some 50"
proof (cases rule: data_recording_cases [of env])
  case (no_device e)
  then show ?thesis
    by (simp add: run_no_device declared_def)
next
  case (recv_fails h e)
  then show ?thesis
    by (simp add: run_recv_fails declared_def)
next
  case (save_fails h buf e)
  then show ?thesis
    by (simp add: run_save_fails declared_def)
next
  case (all_succeed h buf)
  then show ?thesis
    by (simp add: run_all_succeed declared_def)
qed

lemma run_other_files:
  "p \<noteq> ''DATA_4mhz.npy'' \<Longrightarrow> files (final (data_recording env fs)) p = fs p"
proof (cases rule: data_recording_cases [of env])
  case (no_device e)
  then show ?thesis
    by (simp add: run_no_device declared_def)
next
  case (recv_fails h e)
  then show ?thesis
    by (simp add: run_recv_fails declared_def)
next
  case (save_fails h buf e)
  assume "p \<noteq> ''DATA_4mhz.npy''"
  with save_fails show ?thesis
    by (simp add: run_save_fails declared_def split: option.splits)
next
  case (all_succeed h buf)
  assume "p \<noteq> ''DATA_4mhz.npy''"
  with all_succeed show ?thesis
    by (simp add: run_all_succeed declared_def)
qed

lemma finished_run_file:
  "data_recording env fs = Finished s \<Longrightarrow>
   \<exists>buf. samples s = Some buf \<and> files s = fs(''DATA_4mhz.npy'' \<mapsto> buf)"
proof (cases rule: data_recording_cases [of env])
  case (no_device e)
  assume "data_recording env fs = Finished s"
  with no_device show ?thesis
    by (simp add: run_no_device)
next
  case (recv_fails h e)
  assume "data_recording env fs = Finished s"
  with recv_fails show ?thesis
    by (simp add: run_recv_fails)
next
  case (save_fails h buf e)
  assume "data_recording env fs = Finished s"
  with save_fails show ?thesis
    by (simp add: run_save_fails)
next
  case (all_succeed h buf)
  assume "data_recording env fs = Finished s"
  with all_succeed show ?thesis
    by (auto simp add: run_all_succeed declared_def)
qed

text \<open>Single statements, from any state.\<close>

lemma script_ignores_argv_environ:
  "script (env\<lparr>argv := av, environ := ev\<rparr>) = script env"
proof -
  have "stmt_usrp (env\<lparr>argv := av, environ := ev\<rparr>) = stmt_usrp env"
    by (rule ext) (simp add: stmt_usrp_def)
  moreover have "stmt_samples (env\<lparr>argv := av, environ := ev\<rparr>) = stmt_samples env"
    by (rule ext) (simp add: stmt_samples_def split: option.splits)
  moreover have "stmt_save (env\<lparr>argv := av, environ := ev\<rparr>) = stmt_save env"
    by (rule ext) (simp add: stmt_save_def Let_def split: option.splits)
  ultimately show ?thesis
    by (simp add: script_def)
qed

lemma stmt_save_calls:
  "save_calls (trace (final (stmt_save env s))) =
     save_calls (trace s) @
       (case samples s of None \<Rightarrow> [] | Some buf \<Rightarrow> [(''DATA_4mhz.npy'', buf)])"
  by (simp add: stmt_save_def log_def save_calls_append Let_def split: option.splits)

lemma stmt_save_other_files:
  "p \<noteq> ''DATA_4mhz.npy'' \<Longrightarrow> files (final (stmt_save env s)) p = files s p"
  by (simp add: stmt_save_def log_def Let_def split: option.splits)

lemma stmt_save_keeps_samples: "samples (final (stmt_save env s)) = samples s"
  by (simp add: stmt_save_def log_def Let_def split: option.splits)

lemma stmt_print_keeps_samples: "samples (final (stmt_print s)) = samples s"
  by (simp add: stmt_print_def log_def Let_def split: option.splits)

section \<open>Properties of the script\<close>

text \<open>
  The properties of wiring, preview, buffer and errors are stated for \<open>data_recording\<close>,
  the run from line 5 on; by \<open>data_recording_py_imports_ok\<close> that is the whole file
  whenever its imports succeed. The properties that speak of every execution, the order of
  the steps and the acquisition of the device, are stated for the whole file.
\<close>

subsection \<open>Parameter wiring\<close>

text \<open>
  C1. The acquisition call receives exactly the values declared at the top of the script.
  Every \<open>recv_num_samps\<close> call in the log of a run carries sample count 20000000, centre
  frequency 2460e6, sample rate 4e6, channel list \<open>(0,)\<close> and gain 50, and each of these
  equals the value the globals \<open>num_samples\<close>, \<open>center_freq\<close>, \<open>sample_rate\<close> and
  \<open>gain\<close> hold at the end of the run. The call is made once when the device was
  constructed, and not at all otherwise.
\<close>

theorem recv_num_samps_receives_declared_parameters:
  "let s = final (data_recording env fs)
   in (\<forall>kw \<in> set (recv_calls (trace s)).
         kw = claimed_kwargs \<and>
         num_samples s = Some (kw_num_samps kw) \<and>
         center_freq s = Some (kw_freq kw) \<and>
         sample_rate s = Some (kw_rate kw) \<and>
         gain s = Some (kw_gain kw) \<and>
         kw_channels kw = [0]) \<and>
      length (recv_calls (trace s)) = (case MultiUSRP env of Inl e \<Rightarrow> 0 | Inr h \<Rightarrow> 1)"
proof (cases rule: data_recording_cases [of env])
  case (no_device e)
  then show ?thesis
    by (simp add: run_no_device declared_def)
next
  case (recv_fails h e)
  then show ?thesis
    by (simp add: run_recv_fails declared_def claimed_kwargs_def)
next
  case (save_fails h buf e)
  then show ?thesis
    by (simp add: run_save_fails declared_def claimed_kwargs_def)
next
  case (all_succeed h buf)
  then show ?thesis
    by (simp add: run_all_succeed declared_def claimed_kwargs_def)
qed

theorem recv_num_samps_receives_declared_parameters_witness:
  "claimed_kwargs \<in> set (recv_calls (trace (final (data_recording mocked_env Map.empty)))) \<and>
   num_samples (final (data_recording mocked_env Map.empty)) = Some 20000000 \<and>
   gain (final (data_recording mocked_env Map.empty)) = Some (kw_gain claimed_kwargs)"
proof -
  let ?s = "final (data_recording mocked_env Map.empty)"
  have mem: "claimed_kwargs \<in> set (recv_calls (trace ?s))"
    by (simp add: mocked_run declared_def)
  have "\<forall>kw \<in> set (recv_calls (trace ?s)).
         kw = claimed_kwargs \<and>
         num_samples ?s = Some (kw_num_samps kw) \<and>
         center_freq ?s = Some (kw_freq kw) \<and>
         sample_rate ?s = Some (kw_rate kw) \<and>
         gain ?s = Some (kw_gain kw) \<and>
         kw_channels kw = [0]"
    using recv_num_samps_receives_declared_parameters [of mocked_env Map.empty]
    unfolding Let_def by (rule conjunct1)
  with mem have "num_samples ?s = Some (kw_num_samps claimed_kwargs) \<and>
      gain ?s = Some (kw_gain claimed_kwargs)"
    by blast
  with mem show ?thesis
    by (simp add: claimed_kwargs_def)
qed

text \<open>
  C7. The parameters do not depend on anything outside the script. Take any two runs,
  with any command lines, environments, files on disk and library behaviour: a
  \<open>recv_num_samps\<close> call of one carries the same arguments as one of the other, a
  \<open>np.save\<close> call of one names the same file as one of the other, and the four
  parameter globals end with the same values. Changing only the command line and the
  environment of a run changes nothing about it at all.
\<close>

theorem parameters_do_not_depend_on_external_input:
  "let s1 = final (data_recording env1 fs1); s2 = final (data_recording env2 fs2)
   in (\<forall>kw1 \<in> set (recv_calls (trace s1)). \<forall>kw2 \<in> set (recv_calls (trace s2)). kw1 = kw2) \<and>
      (\<forall>p1 \<in> set (map fst (save_calls (trace s1))).
         \<forall>p2 \<in> set (map fst (save_calls (trace s2))). p1 = p2) \<and>
      num_samples s1 = num_samples s2 \<and> center_freq s1 = center_freq s2 \<and>
      sample_rate s1 = sample_rate s2 \<and> gain s1 = gain s2 \<and>
      data_recording (env1\<lparr>argv := av, environ := ev\<rparr>) fs1 = data_recording env1 fs1"
proof -
  let ?s1 = "final (data_recording env1 fs1)" and ?s2 = "final (data_recording env2 fs2)"
  have "\<forall>kw1 \<in> set (recv_calls (trace ?s1)). \<forall>kw2 \<in> set (recv_calls (trace ?s2)). kw1 = kw2"
    using recv_calls_of_run [of env1 fs1] recv_calls_of_run [of env2 fs2] by blast
  moreover have "\<forall>p1 \<in> set (map fst (save_calls (trace ?s1))).
      \<forall>p2 \<in> set (map fst (save_calls (trace ?s2))). p1 = p2"
    using save_paths_of_run [of env1 fs1] save_paths_of_run [of env2 fs2] by blast
  moreover have "num_samples ?s1 = num_samples ?s2 \<and> center_freq ?s1 = center_freq ?s2 \<and>
      sample_rate ?s1 = sample_rate ?s2 \<and> gain ?s1 = gain ?s2"
    using parameters_of_run [of env1 fs1] parameters_of_run [of env2 fs2] by simp
  moreover have "data_recording (env1\<lparr>argv := av, environ := ev\<rparr>) fs1 = data_recording env1 fs1"
    by (simp add: data_recording_def script_ignores_argv_environ)
  ultimately show ?thesis
    unfolding Let_def by blast
qed

theorem parameters_do_not_depend_on_external_input_witness:
  "recv_calls (trace (final (data_recording mocked_env Map.empty))) = [claimed_kwargs] \<and>
   recv_calls (trace (final (data_recording flagged_env [''config.npy'' \<mapsto> [5]]))) =
     [claimed_kwargs] \<and>
   map fst (save_calls (trace (final (data_recording mocked_env Map.empty)))) =
     [''DATA_4mhz.npy''] \<and>
   map fst (save_calls (trace (final (data_recording flagged_env [''config.npy'' \<mapsto> [5]])))) =
     [''DATA_4mhz.npy''] \<and>
   argv flagged_env \<noteq> argv mocked_env \<and> environ flagged_env \<noteq> environ mocked_env"
proof -
  let ?t1 = "trace (final (data_recording mocked_env Map.empty))"
  let ?t2 = "trace (final (data_recording flagged_env [''config.npy'' \<mapsto> [5]]))"
  have one: "\<exists>kw. recv_calls ?t1 = [kw]" "\<exists>p. map fst (save_calls ?t1) = [p]"
    by (simp_all add: mocked_run declared_def)
  have two: "recv_calls ?t2 = [claimed_kwargs]" "map fst (save_calls ?t2) = [''DATA_4mhz.npy'']"
    by (simp_all add: flagged_run declared_def)
  have differ: "argv flagged_env \<noteq> argv mocked_env \<and> environ flagged_env \<noteq> environ mocked_env"
    by (simp add: flagged_env_def short_buffer_env_def mocked_env_def fun_eq_iff)
  from parameters_do_not_depend_on_external_input
         [of mocked_env Map.empty flagged_env "[''config.npy'' \<mapsto> [5]]"]
  have "(\<forall>kw1 \<in> set (recv_calls ?t1). \<forall>kw2 \<in> set (recv_calls ?t2). kw1 = kw2) \<and>
        (\<forall>p1 \<in> set (map fst (save_calls ?t1)). \<forall>p2 \<in> set (map fst (save_calls ?t2)). p1 = p2)"
    unfolding Let_def by blast
  with one two differ show ?thesis
    by auto
qed

text \<open>
  C8. The output path is the literal \<open>DATA_4mhz.npy\<close>. Every \<open>np.save\<close> call of a
  run names it, no other file is touched, and a run that finishes leaves the received
  buffer under that name whatever was there before. The save statement behaves so from
  any state, that is, for any values of the sample count, frequency, rate and gain
  globals.
\<close>

theorem output_path_is_fixed_literal:
  "(\<forall>c \<in> set (save_calls (trace (final (data_recording env fs)))). fst c = ''DATA_4mhz.npy'') \<and>
   (\<forall>p. p \<noteq> ''DATA_4mhz.npy'' \<longrightarrow> files (final (data_recording env fs)) p = fs p) \<and>
   (\<forall>s. data_recording env fs = Finished s \<longrightarrow>
      (\<exists>buf. samples s = Some buf \<and> files s = fs(''DATA_4mhz.npy'' \<mapsto> buf))) \<and>
   (\<forall>s. save_calls (trace (final (stmt_save env s))) =
      save_calls (trace s) @
        (case samples s of None \<Rightarrow> [] | Some buf \<Rightarrow> [(''DATA_4mhz.npy'', buf)])) \<and>
   (\<forall>s p. p \<noteq> ''DATA_4mhz.npy'' \<longrightarrow> files (final (stmt_save env s)) p = files s p)"
proof -
  have "\<forall>c \<in> set (save_calls (trace (final (data_recording env fs)))). fst c = ''DATA_4mhz.npy''"
    using save_paths_of_run [of env fs] by auto
  then show ?thesis
    using run_other_files [of _ env fs] finished_run_file [of env fs]
      stmt_save_calls [of env] stmt_save_other_files [of _ env]
    by blast
qed

theorem output_path_is_fixed_literal_witness:
  "save_calls (trace (final (data_recording short_buffer_env [''DATA_4mhz.npy'' \<mapsto> [9]]))) =
     [(''DATA_4mhz.npy'', [1, 2, 3])] \<and>
   files (final (data_recording short_buffer_env [''DATA_4mhz.npy'' \<mapsto> [9]])) =
     [''DATA_4mhz.npy'' \<mapsto> [1, 2, 3]] \<and>
   files (final (data_recording short_buffer_env [''DATA_4mhz.npy'' \<mapsto> [9]])) ''other.npy'' = None"
proof -
  let ?fs = "[''DATA_4mhz.npy'' \<mapsto> [9::complex]]"
  let ?s = "final (data_recording short_buffer_env ?fs)"
  have fin: "data_recording short_buffer_env ?fs = Finished ?s"
    by (simp add: short_buffer_run)
  have buf: "samples ?s = Some [1, 2, 3]"
    by (simp add: short_buffer_run declared_def)
  have other: "''other.npy'' \<noteq> ''DATA_4mhz.npy''"
    by simp
  from output_path_is_fixed_literal [of short_buffer_env ?fs]
  have a: "\<forall>c \<in> set (save_calls (trace ?s)). fst c = ''DATA_4mhz.npy''"
    and b: "\<forall>p. p \<noteq> ''DATA_4mhz.npy'' \<longrightarrow> files ?s p = ?fs p"
    and c: "\<forall>s. data_recording short_buffer_env ?fs = Finished s \<longrightarrow>
      (\<exists>buf. samples s = Some buf \<and> files s = ?fs(''DATA_4mhz.npy'' \<mapsto> buf))"
    by blast+
  from c fin buf have "files ?s = ?fs(''DATA_4mhz.npy'' \<mapsto> [1, 2, 3])"
    by fastforce
  moreover from b other have "files ?s ''other.npy'' = None"
    by simp
  moreover have "save_calls (trace ?s) = [(''DATA_4mhz.npy'', [1, 2, 3])]"
    by (simp add: short_buffer_run declared_def)
  ultimately show ?thesis
    by simp
qed

subsection \<open>Preview and persisted buffer\<close>

text \<open>
  C2. The printed preview equals the first ten entries of the persisted buffer, entry for
  entry. Whatever a run prints is \<open>take 10\<close> of the array stored under
  \<open>DATA_4mhz.npy\<close>, which is the buffer the receive call returned; and for every buffer
  the receive call returns and \<open>np.save\<close> accepts, exactly that preview is printed. An
  entry is an entry along the first axis of the array, which is what the slice selects.
\<close>

theorem preview_equals_prefix_of_persisted_buffer:
  "let s = final (data_recording env fs)
   in (\<forall>v \<in> set (stdout s).
         \<exists>buf. files s ''DATA_4mhz.npy'' = Some buf \<and> samples s = Some buf \<and>
               v = take 10 buf \<and> (\<forall>i < length v. v ! i = buf ! i)) \<and>
      (\<forall>h buf. MultiUSRP env = Inr h \<and> recv_num_samps env h claimed_kwargs = Inr buf \<and>
               np_save env ''DATA_4mhz.npy'' buf = None \<longrightarrow>
               stdout s = [take 10 buf] \<and> print_calls (trace s) = [take 10 buf] \<and>
               files s ''DATA_4mhz.npy'' = Some buf)"
proof (cases rule: data_recording_cases [of env])
  case (no_device e)
  then show ?thesis
    by (simp add: run_no_device declared_def)
next
  case (recv_fails h e)
  then show ?thesis
    by (simp add: run_recv_fails declared_def)
next
  case (save_fails h buf e)
  then show ?thesis
    by (simp add: run_save_fails declared_def)
next
  case (all_succeed h buf)
  then show ?thesis
    by (simp add: run_all_succeed declared_def)
qed

theorem preview_equals_prefix_of_persisted_buffer_witness:
  "stdout (final (data_recording short_buffer_env Map.empty)) = [[1, 2, 3]] \<and>
   files (final (data_recording short_buffer_env Map.empty)) ''DATA_4mhz.npy'' = Some [1, 2, 3] \<and>
   stdout (final (data_recording mocked_env Map.empty)) = [replicate 10 0] \<and>
   files (final (data_recording mocked_env Map.empty)) ''DATA_4mhz.npy'' =
     Some (replicate 20000000 0)"
proof -
  have short: "MultiUSRP short_buffer_env = Inr 0 \<and>
      recv_num_samps short_buffer_env 0 claimed_kwargs = Inr [1, 2, 3] \<and>
      np_save short_buffer_env ''DATA_4mhz.npy'' [1, 2, 3] = None"
    by (simp add: short_buffer_env_def mocked_env_def)
  have long: "MultiUSRP mocked_env = Inr 0 \<and>
      recv_num_samps mocked_env 0 claimed_kwargs = Inr (replicate 20000000 0) \<and>
      np_save mocked_env ''DATA_4mhz.npy'' (replicate 20000000 0) = None"
    by (simp add: mocked_env_def claimed_kwargs_def)
  from short preview_equals_prefix_of_persisted_buffer [of short_buffer_env Map.empty]
  have "stdout (final (data_recording short_buffer_env Map.empty)) = [take 10 [1, 2, 3]] \<and>
      files (final (data_recording short_buffer_env Map.empty)) ''DATA_4mhz.npy'' = Some [1, 2, 3]"
    unfolding Let_def by blast
  moreover from long preview_equals_prefix_of_persisted_buffer [of mocked_env Map.empty]
  have "stdout (final (data_recording mocked_env Map.empty)) = [take 10 (replicate 20000000 0)] \<and>
      files (final (data_recording mocked_env Map.empty)) ''DATA_4mhz.npy'' =
        Some (replicate 20000000 0)"
    unfolding Let_def by blast
  ultimately show ?thesis
    by simp
qed

text \<open>
  C3. If the library honours its contract that a returned buffer is as long as the
  requested sample count, then after a finished run reloading \<open>DATA_4mhz.npy\<close> gives
  the very buffer that was received: an array of complex entries, 20000000 of them. The
  entry type stands for the dtype; saving and reloading do not touch it.
\<close>

theorem reload_has_requested_count_and_complex_entries:
  fixes env :: "('h, complex) env"
  assumes contract:
    "\<forall>h kw buf. recv_num_samps env h kw = Inr buf \<longrightarrow> int (length buf) = kw_num_samps kw"
    and finished: "data_recording env fs = Finished s"
  shows "\<exists>h buf. MultiUSRP env = Inr h \<and> recv_num_samps env h claimed_kwargs = Inr buf \<and>
           np_load ''DATA_4mhz.npy'' s = Inr buf \<and> length buf = 20000000"
proof (cases rule: data_recording_cases [of env])
  case (no_device e)
  with finished show ?thesis
    by (simp add: run_no_device)
next
  case (recv_fails h e)
  with finished show ?thesis
    by (simp add: run_recv_fails)
next
  case (save_fails h buf e)
  with finished show ?thesis
    by (simp add: run_save_fails)
next
  case (all_succeed h buf)
  from contract all_succeed(2) have "int (length buf) = kw_num_samps claimed_kwargs"
    by blast
  then have len: "length buf = 20000000"
    by (simp add: claimed_kwargs_def)
  from finished all_succeed have "np_load ''DATA_4mhz.npy'' s = Inr buf"
    by (auto simp add: run_all_succeed np_load_def)
  with all_succeed len show ?thesis
    by blast
qed

theorem reload_has_requested_count_and_complex_entries_witness:
  "recv_num_samps mocked_env 0 claimed_kwargs = Inr (replicate 20000000 0) \<and>
   (\<exists>s buf. data_recording mocked_env Map.empty = Finished s \<and>
      np_load ''DATA_4mhz.npy'' s = Inr buf \<and> length buf = 20000000)"
proof -
  have contract: "\<forall>h kw buf. recv_num_samps mocked_env h kw = Inr buf \<longrightarrow>
      int (length buf) = kw_num_samps kw"
    by (auto simp add: mocked_env_def split: if_splits)
  have answer: "recv_num_samps mocked_env 0 claimed_kwargs = Inr (replicate 20000000 0)"
    by (simp add: mocked_env_def claimed_kwargs_def)
  obtain s where fin: "data_recording mocked_env Map.empty = Finished s"
    by (simp add: mocked_run)
  from reload_has_requested_count_and_complex_entries [OF contract fin] fin answer
  show ?thesis
    by blast
qed

text \<open>
  C9. The preview cannot fail on the length of the buffer. For every buffer, also one
  shorter than ten, \<open>samples[0:10]\<close> is its \<open>min 10 length\<close> leading entries; the
  print statement finishes from any state in which \<open>samples\<close> is bound, and a run whose
  receive call returned and whose save succeeded finishes.
\<close>

theorem preview_never_fails_on_length:
  fixes env :: "('h, 'a) env"
  shows "slice 0 10 buf = take (min 10 (length buf)) buf \<and>
   length (slice 0 10 buf) = min 10 (length buf) \<and>
   (\<forall>s :: ('h, 'a) state. samples s = Some buf \<longrightarrow>
      raised (stmt_print s) = None \<and>
      stdout (final (stmt_print s)) = stdout s @ [take (min 10 (length buf)) buf]) \<and>
   (\<forall>h. MultiUSRP env = Inr h \<and> recv_num_samps env h claimed_kwargs = Inr buf \<and>
        np_save env ''DATA_4mhz.npy'' buf = None \<longrightarrow>
        raised (data_recording env fs) = None \<and>
        stdout (final (data_recording env fs)) = [take (min 10 (length buf)) buf])"
proof -
  have sl: "slice 0 10 buf = take (min 10 (length buf)) buf"
    by (simp add: slice_0_10 min_def)
  then have len: "length (slice 0 10 buf) = min 10 (length buf)"
    by simp
  have pr: "\<forall>s :: ('h, 'a) state. samples s = Some buf \<longrightarrow>
      raised (stmt_print s) = None \<and>
      stdout (final (stmt_print s)) = stdout s @ [take (min 10 (length buf)) buf]"
    by (simp add: stmt_print_def sl log_def Let_def)
  have rn: "\<forall>h. MultiUSRP env = Inr h \<and> recv_num_samps env h claimed_kwargs = Inr buf \<and>
        np_save env ''DATA_4mhz.npy'' buf = None \<longrightarrow>
        raised (data_recording env fs) = None \<and>
        stdout (final (data_recording env fs)) = [take (min 10 (length buf)) buf]"
    by (simp add: run_all_succeed min_def)
  from sl len pr rn show ?thesis
    by blast
qed

theorem preview_never_fails_on_length_witness:
  "slice 0 10 [1, 2, 3 :: complex] = [1, 2, 3] \<and>
   raised (data_recording short_buffer_env Map.empty) = None \<and>
   stdout (final (data_recording short_buffer_env Map.empty)) = [[1, 2, 3]] \<and>
   raised (stmt_print (final (data_recording short_buffer_env Map.empty))) = None"
proof -
  let ?s = "final (data_recording short_buffer_env Map.empty)"
  have reached: "MultiUSRP short_buffer_env = Inr 0 \<and>
      recv_num_samps short_buffer_env 0 claimed_kwargs = Inr [1, 2, 3] \<and>
      np_save short_buffer_env ''DATA_4mhz.npy'' [1, 2, 3] = None"
    by (simp add: short_buffer_env_def mocked_env_def)
  have bound: "samples ?s = Some [1, 2, 3]"
    by (simp add: short_buffer_run declared_def)
  note inst = preview_never_fails_on_length [of "[1, 2, 3]" short_buffer_env Map.empty]
  from inst have "slice 0 10 [1, 2, 3 :: complex] = take (min 10 (length [1, 2, 3 :: complex])) [1, 2, 3]"
    by blast
  moreover from inst reached have "raised (data_recording short_buffer_env Map.empty) = None \<and>
      stdout ?s = [take (min 10 (length [1, 2, 3 :: complex])) [1, 2, 3]]"
    by blast
  moreover from inst bound have "raised (stmt_print ?s) = None"
    by blast
  ultimately show ?thesis
    by simp
qed

text \<open>
  C10. Nothing changes the buffer once it has been received. The save and the print
  statement leave \<open>samples\<close> as it was, from any state; so in a run whose receive call
  returned \<open>buf\<close>, the array handed to \<open>np.save\<close> is \<open>buf\<close>, the value printed is
  the first ten entries of \<open>buf\<close>, and \<open>samples\<close> still is \<open>buf\<close> at the end.
\<close>

theorem buffer_unchanged_after_receive:
  fixes env :: "('h, 'a) env"
  shows "(\<forall>s. samples (final (stmt_save env s)) = samples s) \<and>
   (\<forall>s :: ('h, 'a) state. samples (final (stmt_print s)) = samples s) \<and>
   (\<forall>h buf. MultiUSRP env = Inr h \<and> recv_num_samps env h claimed_kwargs = Inr buf \<longrightarrow>
      (let out = data_recording env fs; s = final out
       in samples s = Some buf \<and>
          (\<forall>c \<in> set (save_calls (trace s)). snd c = buf) \<and>
          (\<forall>v \<in> set (print_calls (trace s)). v = take 10 buf) \<and>
          (\<forall>v \<in> set (stdout s). v = take 10 buf) \<and>
          (raised out = None \<longrightarrow> files s ''DATA_4mhz.npy'' = Some buf)))"
proof -
  have run: "\<forall>h buf. MultiUSRP env = Inr h \<and> recv_num_samps env h claimed_kwargs = Inr buf \<longrightarrow>
      (let out = data_recording env fs; s = final out
       in samples s = Some buf \<and>
          (\<forall>c \<in> set (save_calls (trace s)). snd c = buf) \<and>
          (\<forall>v \<in> set (print_calls (trace s)). v = take 10 buf) \<and>
          (\<forall>v \<in> set (stdout s). v = take 10 buf) \<and>
          (raised out = None \<longrightarrow> files s ''DATA_4mhz.npy'' = Some buf))"
  proof (cases rule: data_recording_cases [of env])
    case (no_device e)
    then show ?thesis
      by simp
  next
    case (recv_fails h e)
    then show ?thesis
      by simp
  next
    case (save_fails h buf e)
    then show ?thesis
      by (simp add: run_save_fails declared_def)
  next
    case (all_succeed h buf)
    then show ?thesis
      by (simp add: run_all_succeed declared_def)
  qed
  with stmt_save_keeps_samples [of env] stmt_print_keeps_samples show ?thesis
    by blast
qed

theorem buffer_unchanged_after_receive_witness:
  "samples (final (data_recording short_buffer_env Map.empty)) = Some [1, 2, 3] \<and>
   save_calls (trace (final (data_recording short_buffer_env Map.empty))) =
     [(''DATA_4mhz.npy'', [1, 2, 3])] \<and>
   print_calls (trace (final (data_recording short_buffer_env Map.empty))) = [[1, 2, 3]] \<and>
   files (final (data_recording short_buffer_env Map.empty)) ''DATA_4mhz.npy'' = Some [1, 2, 3]"
proof -
  let ?out = "data_recording short_buffer_env Map.empty"
  have reached: "MultiUSRP short_buffer_env = Inr 0 \<and>
      recv_num_samps short_buffer_env 0 claimed_kwargs = Inr [1, 2, 3]"
    by (simp add: short_buffer_env_def mocked_env_def)
  have shape: "raised ?out = None"
    "\<exists>p a. save_calls (trace (final ?out)) = [(p, a)] \<and> p = ''DATA_4mhz.npy''"
    "\<exists>v. print_calls (trace (final ?out)) = [v]"
    by (simp_all add: short_buffer_run declared_def)
  from reached buffer_unchanged_after_receive [of short_buffer_env Map.empty]
  have "samples (final ?out) = Some [1, 2, 3] \<and>
        (\<forall>c \<in> set (save_calls (trace (final ?out))). snd c = [1, 2, 3]) \<and>
        (\<forall>v \<in> set (print_calls (trace (final ?out))). v = take 10 [1, 2, 3]) \<and>
        (raised ?out = None \<longrightarrow> files (final ?out) ''DATA_4mhz.npy'' = Some [1, 2, 3])"
    unfolding Let_def by blast
  with shape show ?thesis
    by auto
qed

subsection \<open>Errors\<close>

text \<open>
  C4. An error raised by the device constructor or by the receive call (which also does
  the tuning) is not caught: the run ends with that very exception. After either, the file
  system is as it was before the run and nothing has been printed; neither \<open>np.save\<close>
  nor \<open>print\<close> was called.
\<close>

theorem library_errors_propagate_uncaught:
  "let out = data_recording env fs; s = final out
   in (\<forall>e. MultiUSRP env = Inl e \<longrightarrow>
         raised out = Some e \<and> files s = fs \<and> stdout s = [] \<and>
         recv_calls (trace s) = [] \<and> save_calls (trace s) = [] \<and> print_calls (trace s) = []) \<and>
      (\<forall>h e. MultiUSRP env = Inr h \<and> recv_num_samps env h claimed_kwargs = Inl e \<longrightarrow>
         raised out = Some e \<and> files s = fs \<and> stdout s = [] \<and>
         save_calls (trace s) = [] \<and> print_calls (trace s) = [])"
proof (cases rule: data_recording_cases [of env])
  case (no_device e)
  then show ?thesis
    by (simp add: run_no_device declared_def)
next
  case (recv_fails h e)
  then show ?thesis
    by (simp add: run_recv_fails declared_def)
next
  case (save_fails h buf e)
  then show ?thesis
    by (simp add: run_save_fails declared_def)
next
  case (all_succeed h buf)
  then show ?thesis
    by (simp add: run_all_succeed declared_def)
qed

theorem library_errors_propagate_uncaught_witness:
  "raised (data_recording no_device_env [''old.npy'' \<mapsto> [1]]) =
     Some (LibraryError ''No devices found'') \<and>
   files (final (data_recording no_device_env [''old.npy'' \<mapsto> [1]])) = [''old.npy'' \<mapsto> [1]] \<and>
   raised (data_recording tuning_error_env [''old.npy'' \<mapsto> [1]]) =
     Some (LibraryError ''tune request failed'') \<and>
   files (final (data_recording tuning_error_env [''old.npy'' \<mapsto> [1]])) = [''old.npy'' \<mapsto> [1]] \<and>
   stdout (final (data_recording tuning_error_env [''old.npy'' \<mapsto> [1]])) = []"
proof -
  have dev: "MultiUSRP no_device_env = Inl (LibraryError ''No devices found'')"
    by (simp add: no_device_env_def mocked_env_def)
  have tune: "MultiUSRP tuning_error_env = Inr 0 \<and>
      recv_num_samps tuning_error_env 0 claimed_kwargs = Inl (LibraryError ''tune request failed'')"
    by (simp add: tuning_error_env_def mocked_env_def)
  from dev library_errors_propagate_uncaught [of no_device_env "[''old.npy'' \<mapsto> [1]]"]
  have "raised (data_recording no_device_env [''old.npy'' \<mapsto> [1]]) =
          Some (LibraryError ''No devices found'') \<and>
        files (final (data_recording no_device_env [''old.npy'' \<mapsto> [1]])) = [''old.npy'' \<mapsto> [1]]"
    unfolding Let_def by blast
  moreover
  from tune library_errors_propagate_uncaught [of tuning_error_env "[''old.npy'' \<mapsto> [1]]"]
  have "raised (data_recording tuning_error_env [''old.npy'' \<mapsto> [1]]) =
          Some (LibraryError ''tune request failed'') \<and>
        files (final (data_recording tuning_error_env [''old.npy'' \<mapsto> [1]])) = [''old.npy'' \<mapsto> [1]] \<and>
        stdout (final (data_recording tuning_error_env [''old.npy'' \<mapsto> [1]])) = []"
    unfolding Let_def by blast
  ultimately show ?thesis
    by blast
qed

subsection \<open>Order of the steps\<close>




subsection \<open>The device handle\<close>

text \<open>
  C6, as stated: the device handle is acquired exactly once per execution. That fails in
  a run whose constructor raises, which ends without a handle, and in a run whose import
  of the UHD module raises, which never calls the constructor.
\<close>

theorem handle_not_acquired_counterexample:
  "acquisitions (trace (final (data_recording_py no_device_env Map.empty))) = [] \<and>
   usrp (final (data_recording_py no_device_env Map.empty)) = None \<and>
   raised (data_recording_py no_device_env Map.empty) =
     Some (LibraryError ''No devices found'') \<and>
   constructions (trace (final (data_recording_py no_uhd_env Map.empty))) = 0"
proof -
  have "failed_import no_device_env = None"
    and "failed_import no_uhd_env = Some (ImportError ''No module named uhd'')"
    by (simp_all add: failed_import_def no_device_env_def no_uhd_env_def mocked_env_def)
  then show ?thesis
    by (simp add: data_recording_py_imports_ok data_recording_py_import_fails no_device_run
        declared_def initial_def)
qed

text \<open>
  C6, amended. A run acquires the device handle at most once: exactly once when the
  imports succeed and the constructor returns, and then the global \<open>usrp\<close> holds that
  handle to the end of the run; not at all otherwise. The constructor is called at most
  once, exactly once when the imports succeed. No run ever makes a close or release call.
\<close>

theorem device_acquired_at_most_once_never_released:
  "let s = final (data_recording_py env fs)
   in constructions (trace s) \<le> 1 \<and> length (acquisitions (trace s)) \<le> 1 \<and>
      close_calls (trace s) = [] \<and> Device_release \<notin> set (map step_of (trace s)) \<and>
      (constructions (trace s) = 1 \<longleftrightarrow> failed_import env = None) \<and>
      acquisitions (trace s) =
        (if failed_import env = None
         then (case MultiUSRP env of Inl e \<Rightarrow> [] | Inr h \<Rightarrow> [h]) else []) \<and>
      usrp s = (case acquisitions (trace s) of [] \<Rightarrow> None | h # hs \<Rightarrow> Some h)"
proof (cases "failed_import env")
  case (Some e)
  then show ?thesis
    by (simp add: data_recording_py_import_fails initial_def)
next
  case None
  note ok = this
  show ?thesis
  proof (cases rule: data_recording_cases [of env])
    case (no_device e)
    with ok show ?thesis
      by (simp add: data_recording_py_imports_ok run_no_device declared_def)
  next
    case (recv_fails h e)
    with ok show ?thesis
      by (simp add: data_recording_py_imports_ok run_recv_fails declared_def)
  next
    case (save_fails h buf e)
    with ok show ?thesis
      by (simp add: data_recording_py_imports_ok run_save_fails declared_def)
  next
    case (all_succeed h buf)
    with ok show ?thesis
      by (simp add: data_recording_py_imports_ok run_all_succeed declared_def)
  qed
qed

theorem device_acquired_at_most_once_never_released_witness:
  "failed_import mocked_env = None \<and>
   constructions (trace (final (data_recording_py mocked_env Map.empty))) = 1 \<and>
   acquisitions (trace (final (data_recording_py mocked_env Map.empty))) = [0] \<and>
   usrp (final (data_recording_py mocked_env Map.empty)) = Some 0 \<and>
   close_calls (trace (final (data_recording_py mocked_env Map.empty))) = []"
proof -
  have ok: "failed_import mocked_env = None"
    by (simp add: failed_import_def mocked_env_def)
  have dev: "MultiUSRP mocked_env = Inr 0"
    by (simp add: mocked_env_def)
  from device_acquired_at_most_once_never_released [of mocked_env Map.empty]
  show ?thesis
    unfolding Let_def by (simp add: ok dev)
qed

end
